theory Spec2Isabelle
  imports Complex_Main
begin

section \<open>Characteristic table\<close>

text \<open>
  The program is a single Python script. Its floating-point numbers are modelled as
  exact reals, its integers as \<open>int\<close>, and its strings as \<open>string\<close>. A characteristic
  record is a Python dict with a fixed set of keys; it becomes a record with one field
  per key. The field \<open>cell_count\<close> is an integer in the anchor table and a float after
  interpolation, so it is a real here.
\<close>

type_synonym rgb = "int \<times> int \<times> int"

record characteristics =
  title :: string
  shape :: string
  elongation :: real
  alignment :: real
  connection :: real
  sarcomere_organization :: real
  beating_strength :: real
  beating_sync :: real
  color_base :: rgb
  nucleus_size :: real
  debris_level :: real
  cell_count :: real
  cell_clustering :: real

definition day1 :: characteristics where
  "day1 = \<lparr>title = ''Immature Stage'', shape = ''round'', elongation = 1.0,
     alignment = 0.1, connection = 0.1, sarcomere_organization = 0.1,
     beating_strength = 0.1, beating_sync = 0.1, color_base = (255, 214, 204),
     nucleus_size = 0.7, debris_level = 0.1, cell_count = 8, cell_clustering = 0.1\<rparr>"

definition day2 :: characteristics where
  "day2 = \<lparr>title = ''Initial Beating'', shape = ''slightly_elongated'', elongation = 1.2,
     alignment = 0.2, connection = 0.2, sarcomere_organization = 0.2,
     beating_strength = 0.3, beating_sync = 0.2, color_base = (255, 204, 204),
     nucleus_size = 0.65, debris_level = 0.1, cell_count = 12, cell_clustering = 0.3\<rparr>"

definition day3 :: characteristics where
  "day3 = \<lparr>title = ''Mean Beating Begins'', shape = ''elongated'', elongation = 1.5,
     alignment = 0.4, connection = 0.3, sarcomere_organization = 0.4,
     beating_strength = 0.5, beating_sync = 0.4, color_base = (255, 194, 194),
     nucleus_size = 0.5, debris_level = 0.2, cell_count = 16, cell_clustering = 0.5\<rparr>"

definition day4 :: characteristics where
  "day4 = \<lparr>title = ''Stronger Contractions'', shape = ''well_elongated'', elongation = 1.8,
     alignment = 0.6, connection = 0.5, sarcomere_organization = 0.6,
     beating_strength = 0.7, beating_sync = 0.6, color_base = (255, 153, 153),
     nucleus_size = 0.45, debris_level = 0.2, cell_count = 20, cell_clustering = 0.7\<rparr>"

definition day5 :: characteristics where
  "day5 = \<lparr>title = ''Moderate Synchronization'', shape = ''fully_elongated'',
     elongation = 2.0, alignment = 0.8, connection = 0.7, sarcomere_organization = 0.8,
     beating_strength = 0.85, beating_sync = 0.8, color_base = (255, 102, 102),
     nucleus_size = 0.4, debris_level = 0.3, cell_count = 24, cell_clustering = 0.8\<rparr>"

definition day6 :: characteristics where
  "day6 = \<lparr>title = ''Peak Contraction Activity'', shape = ''fully_elongated'',
     elongation = 2.2, alignment = 0.9, connection = 0.9, sarcomere_organization = 0.9,
     beating_strength = 1.0, beating_sync = 0.9, color_base = (255, 51, 51),
     nucleus_size = 0.4, debris_level = 0.4, cell_count = 28, cell_clustering = 0.9\<rparr>"

definition day7 :: characteristics where
  "day7 = \<lparr>title = ''Damage & Fragmentation Begins'', shape = ''fragmenting'',
     elongation = 1.6, alignment = 0.5, connection = 0.6, sarcomere_organization = 0.5,
     beating_strength = 0.6, beating_sync = 0.5, color_base = (204, 51, 51),
     nucleus_size = 0.3, debris_level = 0.7, cell_count = 20, cell_clustering = 0.6\<rparr>"

definition day8 :: characteristics where
  "day8 = \<lparr>title = ''Significant Cell Damage'', shape = ''fragmented'', elongation = 1.2,
     alignment = 0.2, connection = 0.2, sarcomere_organization = 0.1,
     beating_strength = 0.2, beating_sync = 0.1, color_base = (153, 51, 51),
     nucleus_size = 0.25, debris_level = 0.9, cell_count = 12, cell_clustering = 0.2\<rparr>"

text \<open>The dict \<open>cell_characteristics\<close>, keyed by the integer day.\<close>

definition cell_characteristics :: "int \<rightharpoonup> characteristics" where
  "cell_characteristics =
     map_of [(1, day1), (2, day2), (3, day3), (4, day4),
             (5, day5), (6, day6), (7, day7), (8, day8)]"

section \<open>Interpolation between days\<close>

text \<open>Python's \<open>int(x)\<close> on a float truncates toward zero.\<close>

definition py_int :: "real \<Rightarrow> int" where
  "py_int x = (if 0 \<le> x then \<lfloor>x\<rfloor> else \<lceil>x\<rceil>)"

text \<open>
  The exceptions the modelled code can raise: \<open>KeyError\<close> from subscripting the table
  with a missing key, \<open>ValueError\<close> from \<open>np.linspace\<close> with a negative number of
  samples, \<open>IndexError\<close> from \<open>sample_frames[0]\<close> on an empty list.
\<close>

datatype error = KeyError int | ValueError | IndexError

definition table_lookup :: "int \<Rightarrow> error + characteristics" where
  "table_lookup k = (case cell_characteristics k of None \<Rightarrow> Inl (KeyError k) | Some r \<Rightarrow> Inr r)"

text \<open>The two arithmetic branches of the loop over the keys.\<close>

definition interp_value :: "real \<Rightarrow> real \<Rightarrow> real \<Rightarrow> real" where
  "interp_value val1 val2 fraction = val1 + (val2 - val1) * fraction"

definition interp_channel :: "int \<Rightarrow> int \<Rightarrow> real \<Rightarrow> int" where
  "interp_channel c1 c2 fraction = py_int (of_int c1 + (of_int c2 - of_int c1) * fraction)"

definition interp_color :: "rgb \<Rightarrow> rgb \<Rightarrow> real \<Rightarrow> rgb" where
  "interp_color col1 col2 fraction =
     (case col1 of (r1, g1, b1) \<Rightarrow> case col2 of (r2, g2, b2) \<Rightarrow>
        (interp_channel r1 r2 fraction, interp_channel g1 g2 fraction,
         interp_channel b1 b2 fraction))"

text \<open>
  \<open>interpolate_characteristics\<close>: the lower record is looked up first (the loop header),
  the upper one inside the loop; either lookup can raise.
\<close>

definition interpolate_characteristics :: "real \<Rightarrow> error + characteristics" where
  "interpolate_characteristics day_float =
     (let day_lower = py_int day_float;
          day_upper = min 8 (day_lower + 1);
          fraction = day_float - of_int day_lower
      in if day_lower = 8 then table_lookup 8
         else case table_lookup day_lower of
           Inl e \<Rightarrow> Inl e
         | Inr lo \<Rightarrow>
             (case table_lookup day_upper of
                Inl e \<Rightarrow> Inl e
              | Inr hi \<Rightarrow> Inr
                 \<lparr>title = title lo,
                  shape = shape lo,
                  elongation = interp_value (elongation lo) (elongation hi) fraction,
                  alignment = interp_value (alignment lo) (alignment hi) fraction,
                  connection = interp_value (connection lo) (connection hi) fraction,
                  sarcomere_organization =
                    interp_value (sarcomere_organization lo) (sarcomere_organization hi) fraction,
                  beating_strength =
                    interp_value (beating_strength lo) (beating_strength hi) fraction,
                  beating_sync = interp_value (beating_sync lo) (beating_sync hi) fraction,
                  color_base = interp_color (color_base lo) (color_base hi) fraction,
                  nucleus_size = interp_value (nucleus_size lo) (nucleus_size hi) fraction,
                  debris_level = interp_value (debris_level lo) (debris_level hi) fraction,
                  cell_count = interp_value (cell_count lo) (cell_count hi) fraction,
                  cell_clustering =
                    interp_value (cell_clustering lo) (cell_clustering hi) fraction\<rparr>))"

section \<open>Random source and canvas\<close>

text \<open>
  \<open>np.random\<close> is a global generator. It is modelled as an arbitrary infinite sequence
  of raw outputs together with the number of outputs consumed so far.
  \<open>np.random.random()\<close> yields a float in \<open>[0, 1)\<close> with 53 bits of resolution,
  \<open>np.random.randint(low, high)\<close> an integer in \<open>[low, high)\<close>.
\<close>

record rng =
  draws :: "nat \<Rightarrow> nat"
  pos :: nat

definition random_random :: "rng \<Rightarrow> real \<times> rng" where
  "random_random g =
     (real (draws g (pos g) mod 2 ^ 53) / 2 ^ 53, g\<lparr>pos := Suc (pos g)\<rparr>)"

definition random_randint :: "int \<Rightarrow> int \<Rightarrow> rng \<Rightarrow> int \<times> rng" where
  "random_randint low high g =
     (low + int (draws g (pos g)) mod (high - low), g\<lparr>pos := Suc (pos g)\<rparr>)"

text \<open>
  The PIL image is modelled by its size and the list of primitives drawn on the white
  background, in drawing order.
\<close>

type_synonym rgba = "int \<times> int \<times> int \<times> int"
type_synonym point = "real \<times> real"

datatype draw_op =
    Line point point rgba int
  | Ellipse real real real real rgba
  | Rectangle real real real real rgba

record image =
  img_width :: int
  img_height :: int
  img_ops :: "draw_op list"

text \<open>The mutable locals of \<open>generate_frame\<close>, the drawn primitives and the generator.\<close>

record frame_state =
  image_ops :: "draw_op list"
  gen :: rng
  cells_drawn :: int
  clusters_used :: int

definition draw :: "draw_op \<Rightarrow> frame_state \<Rightarrow> frame_state" where
  "draw p st = st\<lparr>image_ops := image_ops st @ [p]\<rparr>"

definition with_alpha :: "rgb \<Rightarrow> int \<Rightarrow> rgba" where
  "with_alpha col a = (case col of (r, g, b) \<Rightarrow> (r, g, b, a))"

section \<open>Frame generation\<close>

definition beat_pulse :: "characteristics \<Rightarrow> real \<Rightarrow> real" where
  "beat_pulse c time_point =
     (let beat_frequency = 1.0 + beating_strength c;
          beat_phase = frac (time_point * beat_frequency)
      in sin (beat_phase * pi))"

definition reduced_cell_count :: "characteristics \<Rightarrow> int" where
  "reduced_cell_count c = min (py_int (cell_count c * 0.8)) 15"

definition num_clusters :: "characteristics \<Rightarrow> int" where
  "num_clusters c = min 3 (max 2 (py_int (cell_clustering c * 3)))"

fun make_cluster_centers :: "nat \<Rightarrow> int \<Rightarrow> int \<Rightarrow> point list \<Rightarrow> rng \<Rightarrow> point list \<times> rng" where
  "make_cluster_centers 0 frame_width frame_height cluster_centers g = (cluster_centers, g)"
| "make_cluster_centers (Suc n) frame_width frame_height cluster_centers g =
     (let (u1, g1) = random_random g;
          (u2, g2) = random_random g1
      in make_cluster_centers n frame_width frame_height
           (cluster_centers @
              [(100 + u1 * of_int (frame_width - 200), 100 + u2 * of_int (frame_height - 200))])
           g2)"

text \<open>The index pairs \<open>(i, j)\<close> with \<open>i < j\<close>, in the order of the nested loops.\<close>

definition cluster_pairs :: "nat \<Rightarrow> (nat \<times> nat) list" where
  "cluster_pairs n = concat (map (\<lambda>i. map (\<lambda>j. (i, j)) [i + 1..<n]) [0..<n])"

definition connect_pair :: "characteristics \<Rightarrow> point list \<Rightarrow> frame_state \<Rightarrow> nat \<times> nat \<Rightarrow> frame_state" where
  "connect_pair c cluster_centers st ij =
     (case ij of (i, j) \<Rightarrow>
        let (u, g1) = random_random (gen st);
            st1 = st\<lparr>gen := g1\<rparr>
        in if u < connection c
           then draw (Line (cluster_centers ! i) (cluster_centers ! j)
                        (with_alpha (color_base c) 120) 2) st1
           else st1)"

definition draw_connections :: "characteristics \<Rightarrow> point list \<Rightarrow> frame_state \<Rightarrow> frame_state" where
  "draw_connections c cluster_centers st =
     (if connection c > 0.4
      then foldl (connect_pair c cluster_centers) st (cluster_pairs (length cluster_centers))
      else st)"

definition draw_fragment :: "characteristics \<Rightarrow> real \<Rightarrow> real \<Rightarrow> frame_state \<Rightarrow> frame_state" where
  "draw_fragment c x y st =
     (let (u1, g1) = random_random (gen st);
          frag_x = x + u1 * 15 - 7;
          (u2, g2) = random_random g1;
          frag_y = y + u2 * 15 - 7;
          (u3, g3) = random_random g2;
          frag_size = 4 + u3 * 4;
          frag_color = with_alpha (color_base c) 150
      in draw (Ellipse frag_x frag_y (frag_x + frag_size) (frag_y + frag_size) frag_color)
           (st\<lparr>gen := g3\<rparr>))"

definition draw_segment :: "real \<Rightarrow> real \<Rightarrow> real \<Rightarrow> rgba \<Rightarrow> frame_state \<Rightarrow> nat \<Rightarrow> frame_state" where
  "draw_segment line_start line_length line_position line_color st s =
     (let segments = 2;
          (u, g1) = random_random (gen st);
          st1 = st\<lparr>gen := g1\<rparr>
      in if u < 0.7
         then let seg_start = line_start + (line_length * real s / segments);
                  seg_end = line_start + (line_length * (real s + 1) / segments)
              in draw (Line (seg_start, line_position) (seg_end, line_position) line_color 1) st1
         else st1)"

definition draw_sarcomere :: "characteristics \<Rightarrow> real \<Rightarrow> real \<Rightarrow> real \<Rightarrow> real \<Rightarrow> frame_state \<Rightarrow> nat \<Rightarrow> frame_state" where
  "draw_sarcomere c x y cell_width cell_height st i =
     (let num_lines = 3;
          line_position = y + cell_height * (real i + 1) / (num_lines + 1);
          line_length = cell_width * 0.8;
          line_start = x + (cell_width - line_length) / 2;
          line_end = line_start + line_length;
          line_color = (case color_base c of (r, g, b) \<Rightarrow>
                          (max (r - 50) 0, max (g - 50) 0, max (b - 50) 0, 150))
      in if sarcomere_organization c < 0.5
         then let (u, g1) = random_random (gen st);
                  st1 = st\<lparr>gen := g1\<rparr>
              in if u > 0.5
                 then foldl (draw_segment line_start line_length line_position line_color)
                        st1 [0..<2]
                 else draw (Line (line_start, line_position) (line_end, line_position)
                              line_color 1) st1
         else draw (Line (line_start, line_position) (line_end, line_position)
                      line_color 1) st)"

text \<open>
  The part of the loop body after the shape branches: the cell body, its sarcomere
  lines, its nucleus, and the increment of \<open>cells_drawn\<close>.
\<close>

definition draw_whole_cell :: "characteristics \<Rightarrow> real \<Rightarrow> real \<Rightarrow> real \<Rightarrow> real \<Rightarrow> frame_state \<Rightarrow> frame_state" where
  "draw_whole_cell c x y cell_width cell_height st =
     (let cell_alpha = 180;
          cell_color = with_alpha (color_base c) cell_alpha;
          st1 = draw (Ellipse x y (x + cell_width) (y + cell_height) cell_color) st;
          st2 = (if sarcomere_organization c > 0.3
                 then foldl (draw_sarcomere c x y cell_width cell_height) st1 [0..<3]
                 else st1);
          (u, g1) = random_random (gen st2);
          st3 = st2\<lparr>gen := g1\<rparr>;
          st4 = (if u < 0.8
                 then let nucleus_size = nucleus_size c;
                          nucleus_width = cell_width * nucleus_size;
                          nucleus_height = cell_height * nucleus_size;
                          nucleus_x = x + (cell_width - nucleus_width) / 2;
                          nucleus_y = y + (cell_height - nucleus_height) / 2
                      in draw (Ellipse nucleus_x nucleus_y (nucleus_x + nucleus_width)
                                 (nucleus_y + nucleus_height) (102, 102, 204, 180)) st3
                 else st3)
      in st4\<lparr>cells_drawn := cells_drawn st4 + 1\<rparr>)"

text \<open>One iteration of the inner \<open>for\<close> loop: one cell, or its fragments.\<close>

definition draw_cell :: "characteristics \<Rightarrow> real \<Rightarrow> real \<Rightarrow> real \<Rightarrow> frame_state \<Rightarrow> frame_state" where
  "draw_cell c pulse cluster_x cluster_y st =
     (let cluster_radius = 20 + 15 * cell_clustering c;
          (u1, g1) = random_random (gen st);
          angle = u1 * 2 * pi;
          (u2, g2) = random_random g1;
          distance = u2 * cluster_radius;
          x = cluster_x + cos angle * distance;
          y = cluster_y + sin angle * distance;
          base_width = 15;
          beat_effect = 1.0 + pulse * beating_strength c * 0.3;
          st1 = st\<lparr>gen := g2\<rparr>
      in if shape c = ''round''
         then let cell_width = base_width * beat_effect;
                  cell_height = cell_width
              in draw_whole_cell c x y cell_width cell_height st1
         else if shape c \<in> set [''slightly_elongated'', ''elongated'', ''well_elongated'',
                                 ''fully_elongated'']
         then let cell_width = base_width * beat_effect;
                  cell_height = base_width * elongation c * beat_effect;
                  (u3, g3) = random_random (gen st1);
                  st2 = st1\<lparr>gen := g3\<rparr>
              in if u3 < alignment c
                 then draw_whole_cell c x y cell_height cell_width st2
                 else draw_whole_cell c x y cell_width cell_height st2
         else let (u3, g3) = random_random (gen st1);
                  st2 = st1\<lparr>gen := g3\<rparr>
              in if u3 < 0.6 \<and> debris_level c > 0.5
                 then let st3 = (draw_fragment c x y ^^ 3) st2
                      in st3\<lparr>cells_drawn := cells_drawn st3 + 1\<rparr>
                 else let cell_width = base_width * beat_effect * 0.8;
                          cell_height = base_width * elongation c * beat_effect * 0.8
                      in draw_whole_cell c x y cell_width cell_height st2)"

text \<open>
  One iteration of the \<open>while\<close> loop: choose a cluster, then draw a batch of cells.
  In \<open>generate_frame\<close> the list \<open>cluster_centers\<close> has \<open>num_clusters\<close> elements, at least
  two, and \<open>clusters_used\<close> counts up from 0, so both subscripts are in range.
\<close>

definition cluster_batch :: "characteristics \<Rightarrow> real \<Rightarrow> point list \<Rightarrow> int \<Rightarrow> frame_state \<Rightarrow> frame_state" where
  "cluster_batch c pulse cluster_centers reduced st =
     (let (cluster_xy, st1) =
            (if clusters_used st < int (length cluster_centers)
             then (cluster_centers ! nat (clusters_used st),
                   st\<lparr>clusters_used := clusters_used st + 1\<rparr>)
             else let (cluster_index, g1) =
                        random_randint 0 (int (length cluster_centers)) (gen st)
                  in (cluster_centers ! nat cluster_index, st\<lparr>gen := g1\<rparr>));
          cells_in_cluster = min 5 (reduced - cells_drawn st1)
      in (draw_cell c pulse (fst cluster_xy) (snd cluster_xy) ^^ nat cells_in_cluster) st1)"

text \<open>
  The \<open>while cells_drawn < reduced_cell_count\<close> loop. Nothing in its definition says
  that it ends: a run that never leaves the loop is the value \<open>None\<close>.
\<close>

partial_function (option) distribute_cells ::
  "characteristics \<Rightarrow> real \<Rightarrow> point list \<Rightarrow> int \<Rightarrow> frame_state \<Rightarrow> frame_state option" where
  "distribute_cells c pulse cluster_centers reduced st =
     (if cells_drawn st < reduced
      then distribute_cells c pulse cluster_centers reduced
             (cluster_batch c pulse cluster_centers reduced st)
      else Some st)"

definition draw_debris :: "characteristics \<Rightarrow> int \<Rightarrow> int \<Rightarrow> frame_state \<Rightarrow> frame_state" where
  "draw_debris c frame_width frame_height st =
     (let (u1, g1) = random_random (gen st);
          debris_x = u1 * of_int frame_width;
          (u2, g2) = random_random g1;
          debris_y = u2 * of_int frame_height;
          (u3, g3) = random_random g2;
          debris_size = 1 + u3 * 3;
          debris_color = (if debris_level c < 0.5 then (180, 180, 180, 80)
                          else (160, 100, 100, 100))
      in draw (Ellipse debris_x debris_y (debris_x + debris_size) (debris_y + debris_size)
                 debris_color)
           (st\<lparr>gen := g3\<rparr>))"

text \<open>
  \<open>generate_frame\<close> in three parts: everything before the \<open>while\<close> loop, the loop, and
  everything after it. The result is the image and the generator left behind. The
  locals \<open>day_decimal\<close> and \<open>day_int\<close>, computed before the overlay and never used, are
  left out.
\<close>

definition frame_setup :: "characteristics \<Rightarrow> int \<Rightarrow> int \<Rightarrow> rng \<Rightarrow> point list \<times> frame_state" where
  "frame_setup c frame_width frame_height g =
     (let (cluster_centers, g1) =
            make_cluster_centers (nat (num_clusters c)) frame_width frame_height [] g;
          st = draw_connections c cluster_centers
                 \<lparr>image_ops = [], gen = g1, cells_drawn = 0, clusters_used = 0\<rparr>
      in (cluster_centers, st\<lparr>cells_drawn := 0, clusters_used := 0\<rparr>))"

definition frame_finish :: "characteristics \<Rightarrow> int \<Rightarrow> int \<Rightarrow> frame_state \<Rightarrow> image \<times> rng" where
  "frame_finish c frame_width frame_height st =
     (let debris_count = py_int (debris_level c * 80);
          st1 = (draw_debris c frame_width frame_height ^^ nat debris_count) st;
          text_bg = (240, 240, 240, 180);
          st2 = draw (Rectangle 10 10 160 30 text_bg) st1
      in (\<lparr>img_width = frame_width, img_height = frame_height, img_ops = image_ops st2\<rparr>,
          gen st2))"

definition generate_frame :: "characteristics \<Rightarrow> real \<Rightarrow> int \<Rightarrow> int \<Rightarrow> rng \<Rightarrow> (image \<times> rng) option" where
  "generate_frame c time_point frame_width frame_height g =
     (let pulse = beat_pulse c time_point;
          reduced = reduced_cell_count c;
          (cluster_centers, st) = frame_setup c frame_width frame_height g
      in case distribute_cells c pulse cluster_centers reduced st of
           None \<Rightarrow> None
         | Some st' \<Rightarrow> Some (frame_finish c frame_width frame_height st'))"

section \<open>Animation assembly\<close>

text \<open>
  The script's block under \<open>if generate_button\<close>. The widgets are its inputs: the chosen
  day range (a pair from \<open>day_range_map\<close>) and the animation speed. The Streamlit
  caching decorators are not modelled: every call is computed.
\<close>

datatype speed = Slow | Medium | Fast

fun duration_map :: "speed \<Rightarrow> int" where
  "duration_map Slow = 500"
| "duration_map Medium = 250"
| "duration_map Fast = 125"

definition total_keyframes :: "real \<Rightarrow> real \<Rightarrow> int" where
  "total_keyframes min_day max_day =
     (if max_day - min_day \<le> 2 then 12
      else py_int (16 * (max_day - min_day) / 7))"

text \<open>\<open>np.linspace(start, stop, num)\<close>, endpoint included.\<close>

definition linspace :: "real \<Rightarrow> real \<Rightarrow> int \<Rightarrow> error + real list" where
  "linspace start stop num =
     (if num < 0 then Inl ValueError
      else if num = 1 then Inr [start]
      else Inr (map (\<lambda>i. start + real i * ((stop - start) / of_int (num - 1))) [0..<nat num]))"

text \<open>The loop over \<open>day_positions\<close>, with the default frame size of \<open>generate_frame\<close>.\<close>

fun render_keyframes :: "real list \<Rightarrow> image list \<Rightarrow> rng \<Rightarrow> (error + image list \<times> rng) option" where
  "render_keyframes [] sample_frames g = Some (Inr (sample_frames, g))"
| "render_keyframes (day_decimal # rest) sample_frames g =
     (case interpolate_characteristics day_decimal of
        Inl e \<Rightarrow> Some (Inl e)
      | Inr characteristics \<Rightarrow>
          (let time_point = (day_decimal - 1) * (60 / 7)
           in case generate_frame characteristics time_point 400 300 g of
                None \<Rightarrow> None
              | Some (frame, g') \<Rightarrow> render_keyframes rest (sample_frames @ [frame]) g'))"

text \<open>What is handed to the GIF writer: the frames, the frame duration, the loop flag.\<close>

record animation =
  frames :: "image list"
  duration :: int
  loop :: int

definition generate_animation :: "real \<times> real \<Rightarrow> speed \<Rightarrow> rng \<Rightarrow> (error + animation \<times> rng) option" where
  "generate_animation day_range animation_speed g =
     (case day_range of (min_day, max_day) \<Rightarrow>
        case linspace min_day max_day (total_keyframes min_day max_day) of
          Inl e \<Rightarrow> Some (Inl e)
        | Inr day_positions \<Rightarrow>
            (case render_keyframes day_positions [] g of
               None \<Rightarrow> None
             | Some (Inl e) \<Rightarrow> Some (Inl e)
             | Some (Inr (sample_frames, g')) \<Rightarrow>
                 (if sample_frames = [] then Some (Inl IndexError)
                  else Some (Inr (\<lparr>frames = sample_frames,
                                    duration = duration_map animation_speed,
                                    loop = 0\<rparr>, g')))))"

section \<open>Notions used to state the properties\<close>

text \<open>\<open>x\<close> lies between \<open>a\<close> and \<open>b\<close>, inclusive, whichever of the two is larger.\<close>

definition between :: "'a::linorder \<Rightarrow> 'a \<Rightarrow> 'a \<Rightarrow> bool" where
  "between a b x \<longleftrightarrow> min a b \<le> x \<and> x \<le> max a b"

text \<open>
  Every numeric field and every colour channel of \<open>r\<close> lies between the values of the
  same field in \<open>lo\<close> and in \<open>hi\<close>.
\<close>

definition within_anchors :: "characteristics \<Rightarrow> characteristics \<Rightarrow> characteristics \<Rightarrow> bool" where
  "within_anchors lo hi r \<longleftrightarrow>
     between (elongation lo) (elongation hi) (elongation r) \<and>
     between (alignment lo) (alignment hi) (alignment r) \<and>
     between (connection lo) (connection hi) (connection r) \<and>
     between (sarcomere_organization lo) (sarcomere_organization hi)
       (sarcomere_organization r) \<and>
     between (beating_strength lo) (beating_strength hi) (beating_strength r) \<and>
     between (beating_sync lo) (beating_sync hi) (beating_sync r) \<and>
     between (nucleus_size lo) (nucleus_size hi) (nucleus_size r) \<and>
     between (debris_level lo) (debris_level hi) (debris_level r) \<and>
     between (cell_count lo) (cell_count hi) (cell_count r) \<and>
     between (cell_clustering lo) (cell_clustering hi) (cell_clustering r) \<and>
     between (fst (color_base lo)) (fst (color_base hi)) (fst (color_base r)) \<and>
     between (fst (snd (color_base lo))) (fst (snd (color_base hi)))
       (fst (snd (color_base r))) \<and>
     between (snd (snd (color_base lo))) (snd (snd (color_base hi)))
       (snd (snd (color_base r)))"

text \<open>
  An inter-cluster connection edge is the only primitive drawn as a line of width 2
  (sarcomere lines have width 1).
\<close>

fun is_connection_edge :: "draw_op \<Rightarrow> bool" where
  "is_connection_edge (Line p q col w) = (w = 2)"
| "is_connection_edge (Ellipse x0 y0 x1 y1 col) = False"
| "is_connection_edge (Rectangle x0 y0 x1 y1 col) = False"

definition connection_edges :: "frame_state \<Rightarrow> draw_op list" where
  "connection_edges st = filter is_connection_edge (image_ops st)"

section \<open>Properties of the interpolation\<close>

lemma interp_value_between:
  assumes "0 \<le> t" "t \<le> 1"
  shows "between a b (interp_value a b t)"
proof (cases "a \<le> b")
  case True
  have "0 \<le> (b - a) * t" using True assms by simp
  moreover have "(b - a) * t \<le> (b - a) * 1"
    using True assms by (intro mult_left_mono) auto
  ultimately show ?thesis using True by (simp add: between_def interp_value_def)
next
  case False
  have "(b - a) * t \<le> 0" using False assms by (simp add: mult_le_0_iff)
  moreover have "(a - b) * t \<le> (a - b) * 1"
    using False assms by (intro mult_left_mono) auto
  ultimately show ?thesis using False by (simp add: between_def interp_value_def algebra_simps)
qed

lemma py_int_between:
  assumes "between (of_int a) (of_int b) x"
  shows "between a b (py_int x)"
proof -
  have lo: "of_int (min a b) \<le> x" and hi: "x \<le> of_int (max a b)"
    using assms by (auto simp: between_def min_def max_def split: if_splits)
  have "min a b \<le> \<lfloor>x\<rfloor>" using lo by (simp add: le_floor_iff)
  moreover have "min a b \<le> \<lceil>x\<rceil>" using lo by (simp add: le_ceiling_iff)
  moreover have "\<lfloor>x\<rfloor> \<le> max a b" using hi by (simp add: floor_le_iff)
  moreover have "\<lceil>x\<rceil> \<le> max a b" using hi by (simp add: ceiling_le_iff)
  ultimately show ?thesis by (simp add: between_def py_int_def)
qed

lemma interp_channel_between:
  assumes "0 \<le> t" "t \<le> 1"
  shows "between a b (interp_channel a b t)"
  unfolding interp_channel_def
  using interp_value_between[OF assms, of "of_int a" "of_int b"]
  by (intro py_int_between) (simp add: interp_value_def)

lemma table_lookup_cases:
  "1 \<le> k \<Longrightarrow> k \<le> 8 \<Longrightarrow> \<exists>r. table_lookup k = Inr r"
proof -
  assume "1 \<le> k" "k \<le> 8"
  then have "k = 1 \<or> k = 2 \<or> k = 3 \<or> k = 4 \<or> k = 5 \<or> k = 6 \<or> k = 7 \<or> k = 8" by arith
  then show ?thesis by (auto simp: table_lookup_def cell_characteristics_def)
qed



lemma between_left: "between a b a"
  by (simp add: between_def)

lemma interp_value_0: "interp_value a b 0 = a"
  by (simp add: interp_value_def)

lemma interp_channel_0: "interp_channel a b 0 = a"
  by (simp add: interp_channel_def py_int_def)

lemma table_lookup_Inr: "table_lookup k = Inr r \<longleftrightarrow> cell_characteristics k = Some r"
  by (simp add: table_lookup_def split: option.splits)

lemma interpolate_below_8:
  assumes "1 \<le> day" and "day < 8"
  shows "\<exists>lo up. table_lookup \<lfloor>day\<rfloor> = Inr lo \<and> table_lookup (min 8 (\<lfloor>day\<rfloor> + 1)) = Inr up \<and>
    interpolate_characteristics day = Inr
      \<lparr>title = title lo, shape = shape lo,
       elongation = interp_value (elongation lo) (elongation up) (frac day),
       alignment = interp_value (alignment lo) (alignment up) (frac day),
       connection = interp_value (connection lo) (connection up) (frac day),
       sarcomere_organization =
         interp_value (sarcomere_organization lo) (sarcomere_organization up) (frac day),
       beating_strength = interp_value (beating_strength lo) (beating_strength up) (frac day),
       beating_sync = interp_value (beating_sync lo) (beating_sync up) (frac day),
       color_base = interp_color (color_base lo) (color_base up) (frac day),
       nucleus_size = interp_value (nucleus_size lo) (nucleus_size up) (frac day),
       debris_level = interp_value (debris_level lo) (debris_level up) (frac day),
       cell_count = interp_value (cell_count lo) (cell_count up) (frac day),
       cell_clustering = interp_value (cell_clustering lo) (cell_clustering up) (frac day)\<rparr>"
proof -
  have fl: "1 \<le> \<lfloor>day\<rfloor>" "\<lfloor>day\<rfloor> \<le> 7" using assms by (simp_all add: le_floor_iff floor_le_iff)
  have pi: "py_int day = \<lfloor>day\<rfloor>" using assms by (simp add: py_int_def)
  obtain lo where lo: "table_lookup \<lfloor>day\<rfloor> = Inr lo"
    using table_lookup_cases[of "\<lfloor>day\<rfloor>"] fl by auto
  obtain up where up: "table_lookup (min 8 (\<lfloor>day\<rfloor> + 1)) = Inr up"
    using table_lookup_cases[of "min 8 (\<lfloor>day\<rfloor> + 1)"] fl by auto
  have ne: "\<lfloor>day\<rfloor> \<noteq> 8" using fl by linarith
  show ?thesis
    using ne lo up by (simp add: interpolate_characteristics_def pi Let_def frac_def)
qed

lemma within_anchors_blend:
  assumes "0 \<le> t" and "t \<le> 1"
  shows "within_anchors lo hi
      \<lparr>title = ti, shape = sh,
       elongation = interp_value (elongation lo) (elongation hi) t,
       alignment = interp_value (alignment lo) (alignment hi) t,
       connection = interp_value (connection lo) (connection hi) t,
       sarcomere_organization =
         interp_value (sarcomere_organization lo) (sarcomere_organization hi) t,
       beating_strength = interp_value (beating_strength lo) (beating_strength hi) t,
       beating_sync = interp_value (beating_sync lo) (beating_sync hi) t,
       color_base = interp_color (color_base lo) (color_base hi) t,
       nucleus_size = interp_value (nucleus_size lo) (nucleus_size hi) t,
       debris_level = interp_value (debris_level lo) (debris_level hi) t,
       cell_count = interp_value (cell_count lo) (cell_count hi) t,
       cell_clustering = interp_value (cell_clustering lo) (cell_clustering hi) t\<rparr>"
  using assms
  by (simp add: within_anchors_def interp_color_def interp_value_between
      interp_channel_between split: prod.splits)

lemma within_anchors_blend_0:
  "within_anchors lo hi
      \<lparr>title = ti, shape = sh,
       elongation = interp_value (elongation lo) (elongation up) 0,
       alignment = interp_value (alignment lo) (alignment up) 0,
       connection = interp_value (connection lo) (connection up) 0,
       sarcomere_organization =
         interp_value (sarcomere_organization lo) (sarcomere_organization up) 0,
       beating_strength = interp_value (beating_strength lo) (beating_strength up) 0,
       beating_sync = interp_value (beating_sync lo) (beating_sync up) 0,
       color_base = interp_color (color_base lo) (color_base up) 0,
       nucleus_size = interp_value (nucleus_size lo) (nucleus_size up) 0,
       debris_level = interp_value (debris_level lo) (debris_level up) 0,
       cell_count = interp_value (cell_count lo) (cell_count up) 0,
       cell_clustering = interp_value (cell_clustering lo) (cell_clustering up) 0\<rparr>"
  by (simp add: within_anchors_def interp_color_def interp_value_0 interp_channel_0
      between_left split: prod.splits)

lemma within_anchors_same: "within_anchors r r r"
  by (simp add: within_anchors_def between_left)

lemma interpolate_at_8:
  assumes "8 \<le> day" and "day < 9"
  shows "interpolate_characteristics day = Inr day8"
proof -
  have "\<lfloor>day\<rfloor> = 8" using assms by (simp add: floor_eq_iff)
  then have "py_int day = 8" using assms by (simp add: py_int_def)
  then show ?thesis
    by (simp add: interpolate_characteristics_def table_lookup_def cell_characteristics_def)
qed

text \<open>
  Claim C1. For every day in \<open>[1, 8]\<close> the interpolation succeeds, and every numeric
  field and every colour channel of its result lies between the values of the floor-day
  anchor and of the ceiling-day anchor, inclusive. The upper anchor is taken both as the
  anchor of \<open>\<lceil>day\<rceil>\<close> and as the anchor the code reads, \<open>min 8 (\<lfloor>day\<rfloor> + 1)\<close>; the
  bound holds for either.
\<close>

theorem interpolate_within_anchors:
  assumes "1 \<le> day" and "day \<le> 8"
  shows "\<exists>r lo hi up. interpolate_characteristics day = Inr r
           \<and> cell_characteristics \<lfloor>day\<rfloor> = Some lo
           \<and> cell_characteristics \<lceil>day\<rceil> = Some hi
           \<and> cell_characteristics (min 8 (\<lfloor>day\<rfloor> + 1)) = Some up
           \<and> within_anchors lo hi r \<and> within_anchors lo up r"
proof (cases "day < 8")
  case False
  then have d: "day = 8" using assms by simp
  have "interpolate_characteristics day = Inr day8"
    using interpolate_at_8[of day] d by simp
  moreover have "cell_characteristics \<lfloor>day\<rfloor> = Some day8" "cell_characteristics \<lceil>day\<rceil> = Some day8"
    "cell_characteristics (min 8 (\<lfloor>day\<rfloor> + 1)) = Some day8"
    by (simp_all add: d cell_characteristics_def)
  ultimately show ?thesis using within_anchors_same by blast
next
  case True
  from interpolate_below_8[OF assms(1) True] obtain lo up r where
    lo: "table_lookup \<lfloor>day\<rfloor> = Inr lo" and
    up: "table_lookup (min 8 (\<lfloor>day\<rfloor> + 1)) = Inr up" and
    r: "interpolate_characteristics day = Inr r" and
    rdef: "r = \<lparr>title = title lo, shape = shape lo,
       elongation = interp_value (elongation lo) (elongation up) (frac day),
       alignment = interp_value (alignment lo) (alignment up) (frac day),
       connection = interp_value (connection lo) (connection up) (frac day),
       sarcomere_organization =
         interp_value (sarcomere_organization lo) (sarcomere_organization up) (frac day),
       beating_strength = interp_value (beating_strength lo) (beating_strength up) (frac day),
       beating_sync = interp_value (beating_sync lo) (beating_sync up) (frac day),
       color_base = interp_color (color_base lo) (color_base up) (frac day),
       nucleus_size = interp_value (nucleus_size lo) (nucleus_size up) (frac day),
       debris_level = interp_value (debris_level lo) (debris_level up) (frac day),
       cell_count = interp_value (cell_count lo) (cell_count up) (frac day),
       cell_clustering = interp_value (cell_clustering lo) (cell_clustering up) (frac day)\<rparr>"
    by auto
  have t: "0 \<le> frac day" "frac day \<le> 1"
    using frac_lt_1[of day] by (simp_all add: less_imp_le)
  have wup: "within_anchors lo up r"
    unfolding rdef by (rule within_anchors_blend[OF t])
  have "\<exists>hi. cell_characteristics \<lceil>day\<rceil> = Some hi \<and> within_anchors lo hi r"
  proof (cases "day \<in> \<int>")
    case True
    then have c: "\<lceil>day\<rceil> = \<lfloor>day\<rfloor>" and f: "frac day = 0"
      by (auto simp: frac_eq_0_iff elim: Ints_cases)
    have "within_anchors lo lo r"
      unfolding rdef f by (rule within_anchors_blend_0)
    then show ?thesis using lo by (auto simp: c table_lookup_Inr)
  next
    case False
    then have "day \<noteq> of_int \<lfloor>day\<rfloor>" by (metis Ints_of_int)
    then have c: "\<lceil>day\<rceil> = \<lfloor>day\<rfloor> + 1"
      by (simp add: ceiling_altdef)
    have "\<lfloor>day\<rfloor> \<le> 7" using True by (simp add: floor_le_iff)
    then have "min 8 (\<lfloor>day\<rfloor> + 1) = \<lceil>day\<rceil>" using c by simp
    then show ?thesis using up wup by (auto simp: table_lookup_Inr)
  qed
  then show ?thesis using lo up r wup by (auto simp: table_lookup_Inr)
qed

theorem interpolate_within_anchors_witness:
  "(1::real) \<le> 5/2 \<and> (5/2::real) \<le> 8 \<and>
   (\<exists>r. interpolate_characteristics (5/2) = Inr r \<and> within_anchors day2 day3 r)"
  using interpolate_within_anchors[of "5/2"]
  by (auto simp: cell_characteristics_def)


text \<open>
  Claim C2. For every \<open>d\<close> in \<open>[1, 8)\<close> the shape and the title of the interpolated record
  are those of the floor-day anchor, unchanged, and the shape (and title) at \<open>d\<close> equals
  the shape (and title) interpolated at \<open>floor d\<close>.
\<close>

theorem categorical_from_floor:
  assumes "1 \<le> d" and "d < 8"
  shows "\<exists>r lo r0. interpolate_characteristics d = Inr r
           \<and> cell_characteristics \<lfloor>d\<rfloor> = Some lo
           \<and> shape r = shape lo \<and> title r = title lo
           \<and> interpolate_characteristics (of_int \<lfloor>d\<rfloor>) = Inr r0
           \<and> shape r = shape r0 \<and> title r = title r0"
proof -
  have fl: "1 \<le> \<lfloor>d\<rfloor>" "\<lfloor>d\<rfloor> < 8" using assms by (simp_all add: le_floor_iff floor_less_iff)
  then have fl': "(1::real) \<le> of_int \<lfloor>d\<rfloor>" "of_int \<lfloor>d\<rfloor> < (8::real)" by linarith+
  from interpolate_below_8[OF assms] obtain lo r where
    lo: "table_lookup \<lfloor>d\<rfloor> = Inr lo" and r: "interpolate_characteristics d = Inr r" and
    rs: "shape r = shape lo" "title r = title lo"
    by force
  from interpolate_below_8[OF fl'] obtain lo0 r0 where
    lo0: "table_lookup \<lfloor>d\<rfloor> = Inr lo0" and r0: "interpolate_characteristics (of_int \<lfloor>d\<rfloor>) = Inr r0" and
    rs0: "shape r0 = shape lo0" "title r0 = title lo0"
    by force
  have "lo0 = lo" using lo lo0 by simp
  then show ?thesis using lo r rs r0 rs0 by (simp add: table_lookup_Inr)
qed

theorem categorical_from_floor_witness:
  "(1::real) \<le> 13/2 \<and> (13/2::real) < 8 \<and>
   (\<exists>r r0. interpolate_characteristics (13/2) = Inr r \<and> shape r = ''fully_elongated''
       \<and> title r = ''Peak Contraction Activity''
       \<and> interpolate_characteristics 6 = Inr r0 \<and> shape r = shape r0)"
  using categorical_from_floor[of "13/2"]
  by (auto simp: cell_characteristics_def day6_def)

text \<open>
  Claim C3. Interpolating at day 1.0 returns a record equal field for field to the day-1
  anchor, and interpolating at day 8.0 returns the day-8 anchor.
\<close>

theorem interpolate_endpoints:
  "cell_characteristics 1 = Some day1 \<and> interpolate_characteristics 1.0 = Inr day1 \<and>
   cell_characteristics 8 = Some day8 \<and> interpolate_characteristics 8.0 = Inr day8"
proof -
  have "interpolate_characteristics 1 = Inr day1"
    by (simp add: interpolate_characteristics_def py_int_def table_lookup_def
        cell_characteristics_def interp_value_0 interp_channel_0 interp_color_def day1_def day2_def)
  moreover have "interpolate_characteristics 8 = Inr day8"
    using interpolate_at_8[of 8] by simp
  ultimately show ?thesis by (simp add: cell_characteristics_def)
qed

text \<open>
  Claim C4 says that every day above 8 yields the day-8 anchor. The early return is
  taken only when the truncated day is exactly 8, that is for days in \<open>[8, 9)\<close>
  (\<open>interpolate_at_8\<close>); at day 9.0 the lookup of the lower record raises \<open>KeyError\<close>.
\<close>

theorem interpolate_day_9_raises:
  "interpolate_characteristics 9.0 = Inl (KeyError 9)"
  by (simp add: interpolate_characteristics_def py_int_def table_lookup_def
      cell_characteristics_def)

section \<open>Properties of frame generation\<close>

subsection \<open>The counter of drawn cells\<close>

text \<open>
  No drawing primitive touches \<open>cells_drawn\<close>; every path through the body of the inner
  loop, the fragment branch included, adds exactly one to it.
\<close>

lemma cells_drawn_draw [simp]: "cells_drawn (draw p st) = cells_drawn st"
  by (simp add: draw_def)

lemma cells_drawn_draw_fragment [simp]: "cells_drawn (draw_fragment c x y st) = cells_drawn st"
  by (simp add: draw_fragment_def Let_def case_prod_beta)

lemma cells_drawn_fragments [simp]: "cells_drawn ((draw_fragment c x y ^^ n) st) = cells_drawn st"
  by (induction n) simp_all

lemma cells_drawn_draw_segment [simp]:
  "cells_drawn (draw_segment a b p col st s) = cells_drawn st"
  by (simp add: draw_segment_def Let_def case_prod_beta)

lemma cells_drawn_segments [simp]:
  "cells_drawn (foldl (draw_segment a b p col) st ss) = cells_drawn st"
  by (induction ss arbitrary: st) simp_all

lemma cells_drawn_draw_sarcomere [simp]:
  "cells_drawn (draw_sarcomere c x y w h st i) = cells_drawn st"
  by (simp add: draw_sarcomere_def Let_def case_prod_beta)

lemma cells_drawn_sarcomeres [simp]:
  "cells_drawn (foldl (draw_sarcomere c x y w h) st is) = cells_drawn st"
  by (induction "is" arbitrary: st) simp_all

lemma cells_drawn_draw_whole_cell [simp]:
  "cells_drawn (draw_whole_cell c x y w h st) = cells_drawn st + 1"
  by (simp add: draw_whole_cell_def Let_def case_prod_beta)

lemma cells_drawn_draw_cell:
  "cells_drawn (draw_cell c pulse cx cy st) = cells_drawn st + 1"
  by (simp add: draw_cell_def Let_def case_prod_beta)

lemma cells_drawn_batch_loop:
  "cells_drawn ((draw_cell c pulse cx cy ^^ n) st) = cells_drawn st + int n"
  by (induction n) (simp_all add: cells_drawn_draw_cell)

lemma cells_drawn_cluster_batch:
  "cells_drawn (cluster_batch c pulse centers reduced st) =
     cells_drawn st + max 0 (min 5 (reduced - cells_drawn st))"
  by (simp add: cluster_batch_def Let_def case_prod_beta cells_drawn_batch_loop)

lemma distribute_cells_terminates:
  assumes "P st"
    and "\<And>s. P s \<Longrightarrow> cells_drawn s < reduced \<Longrightarrow> P (cluster_batch c pulse centers reduced s)"
  shows "\<exists>st'. distribute_cells c pulse centers reduced st = Some st' \<and> P st' \<and>
           cells_drawn st' = max (cells_drawn st) reduced"
  using assms(1)
proof (induction "nat (reduced - cells_drawn st)" arbitrary: st rule: less_induct)
  case less
  show ?case
  proof (cases "cells_drawn st < reduced")
    case False
    then show ?thesis using less.prems
      by (subst distribute_cells.simps) simp
  next
    case True
    let ?s = "cluster_batch c pulse centers reduced st"
    have cd: "cells_drawn ?s = cells_drawn st + min 5 (reduced - cells_drawn st)"
      using True by (simp add: cells_drawn_cluster_batch)
    have "nat (reduced - cells_drawn ?s) < nat (reduced - cells_drawn st)"
      using True cd by simp
    moreover have "P ?s" using assms(2)[OF less.prems True] .
    ultimately obtain st' where
      "distribute_cells c pulse centers reduced ?s = Some st'" "P st'"
      "cells_drawn st' = max (cells_drawn ?s) reduced"
      using less.hyps[of ?s] by blast
    then show ?thesis using True cd
      by (subst distribute_cells.simps) auto
  qed
qed


lemma num_clusters_cases: "num_clusters c = 2 \<or> num_clusters c = 3"
  by (simp add: num_clusters_def min_def max_def)

lemma length_make_cluster_centers:
  "length (fst (make_cluster_centers n w h acc g)) = length acc + n"
  by (induction n arbitrary: acc g) (simp_all add: Let_def case_prod_beta)

lemma length_frame_setup: "int (length (fst (frame_setup c w h g))) = num_clusters c"
  using num_clusters_cases[of c]
  by (auto simp: frame_setup_def Let_def case_prod_beta length_make_cluster_centers)

text \<open>
  Claim C7. Whatever the value of \<open>cell_clustering\<close> and whatever the random draws, the
  list of cluster centres built by \<open>generate_frame\<close> has 2 or 3 elements.
\<close>

theorem cluster_count_2_or_3:
  "length (fst (frame_setup c frame_width frame_height g)) \<in> {2, 3} \<and>
   int (length (fst (frame_setup c frame_width frame_height g))) = num_clusters c"
  using num_clusters_cases[of c] length_frame_setup[of c frame_width frame_height g]
  by auto

subsection \<open>Connection edges\<close>

text \<open>Only \<open>draw_connections\<close> draws lines of width 2.\<close>

lemma edges_draw:
  "connection_edges (draw p st) =
     (if is_connection_edge p then connection_edges st @ [p] else connection_edges st)"
  by (simp add: connection_edges_def draw_def)

lemma edges_gen [simp]: "connection_edges (st\<lparr>gen := g\<rparr>) = connection_edges st"
  by (simp add: connection_edges_def)

lemma edges_cells_drawn [simp]: "connection_edges (st\<lparr>cells_drawn := n\<rparr>) = connection_edges st"
  by (simp add: connection_edges_def)

lemma edges_clusters_used [simp]: "connection_edges (st\<lparr>clusters_used := n\<rparr>) = connection_edges st"
  by (simp add: connection_edges_def)

lemma edges_draw_fragment [simp]: "connection_edges (draw_fragment c x y st) = connection_edges st"
  by (simp add: draw_fragment_def Let_def case_prod_beta edges_draw)

lemma edges_fragments [simp]: "connection_edges ((draw_fragment c x y ^^ n) st) = connection_edges st"
  by (induction n) simp_all

lemma edges_draw_segment [simp]:
  "connection_edges (draw_segment a b p col st s) = connection_edges st"
  by (simp add: draw_segment_def Let_def case_prod_beta edges_draw)

lemma edges_segments [simp]:
  "connection_edges (foldl (draw_segment a b p col) st ss) = connection_edges st"
  by (induction ss arbitrary: st) simp_all

lemma edges_draw_sarcomere [simp]:
  "connection_edges (draw_sarcomere c x y w h st i) = connection_edges st"
  by (simp add: draw_sarcomere_def Let_def case_prod_beta edges_draw)

lemma edges_sarcomeres [simp]:
  "connection_edges (foldl (draw_sarcomere c x y w h) st is) = connection_edges st"
  by (induction "is" arbitrary: st) simp_all

lemma edges_draw_whole_cell [simp]:
  "connection_edges (draw_whole_cell c x y w h st) = connection_edges st"
  by (simp add: draw_whole_cell_def Let_def case_prod_beta edges_draw)

lemma edges_draw_cell [simp]:
  "connection_edges (draw_cell c pulse cx cy st) = connection_edges st"
  by (simp add: draw_cell_def Let_def case_prod_beta)

lemma edges_batch_loop [simp]:
  "connection_edges ((draw_cell c pulse cx cy ^^ n) st) = connection_edges st"
  by (induction n) simp_all

lemma edges_cluster_batch:
  "connection_edges (cluster_batch c pulse centers reduced st) = connection_edges st"
  by (simp add: cluster_batch_def Let_def case_prod_beta)

lemma edges_draw_debris [simp]:
  "connection_edges (draw_debris c w h st) = connection_edges st"
  by (simp add: draw_debris_def Let_def case_prod_beta edges_draw)

lemma edges_debris_loop [simp]:
  "connection_edges ((draw_debris c w h ^^ n) st) = connection_edges st"
  by (induction n) simp_all

lemma edges_frame_finish:
  "filter is_connection_edge (img_ops (fst (frame_finish c w h st))) = connection_edges st"
proof -
  have "filter is_connection_edge (image_ops s) = connection_edges s" for s
    by (simp add: connection_edges_def)
  then show ?thesis
    by (simp add: frame_finish_def Let_def edges_draw)
qed

lemma generate_frame_returns:
  "\<exists>st'. distribute_cells c (beat_pulse c t) (fst (frame_setup c w h g)) (reduced_cell_count c)
            (snd (frame_setup c w h g)) = Some st'
     \<and> connection_edges st' = connection_edges (snd (frame_setup c w h g))
     \<and> cells_drawn st' = max 0 (reduced_cell_count c)
     \<and> generate_frame c t w h g = Some (frame_finish c w h st')"
proof -
  let ?st = "snd (frame_setup c w h g)"
  have cd: "cells_drawn ?st = 0" by (simp add: frame_setup_def Let_def case_prod_beta)
  obtain st' where st': "distribute_cells c (beat_pulse c t) (fst (frame_setup c w h g))
      (reduced_cell_count c) ?st = Some st'"
    "connection_edges st' = connection_edges ?st"
    "cells_drawn st' = max (cells_drawn ?st) (reduced_cell_count c)"
    using distribute_cells_terminates[where P = "\<lambda>s. connection_edges s = connection_edges ?st"
        and st = ?st and reduced = "reduced_cell_count c" and c = c and pulse = "beat_pulse c t"
        and centers = "fst (frame_setup c w h g)"]
    by (auto simp: edges_cluster_batch)
  then show ?thesis using cd
    by (auto simp: generate_frame_def Let_def case_prod_beta)
qed

lemma draw_connections_skipped:
  "connection c \<le> 0.4 \<Longrightarrow> draw_connections c centers st = st"
  by (simp add: draw_connections_def)

text \<open>
  Claim C8. With \<open>connection \<le> 0.4\<close> the edge-drawing step is skipped altogether: it
  leaves the state, and with it the position of the random generator, unchanged. The
  frame that \<open>generate_frame\<close> then returns contains no connection edge, for every
  sequence of random draws.
\<close>

theorem no_edges_below_threshold:
  assumes "connection c \<le> 0.4"
  shows "draw_connections c cluster_centers st = st \<and>
         (\<exists>img g'. generate_frame c time_point frame_width frame_height g = Some (img, g')
            \<and> filter is_connection_edge (img_ops img) = [])"
proof -
  have "connection_edges (snd (frame_setup c frame_width frame_height g)) = []"
    using assms
    by (simp add: frame_setup_def Let_def case_prod_beta draw_connections_skipped
        connection_edges_def)
  with generate_frame_returns[of c time_point frame_width frame_height g]
  obtain st' where "connection_edges st' = []"
    "generate_frame c time_point frame_width frame_height g =
       Some (frame_finish c frame_width frame_height st')"
    by auto
  then have "\<exists>img g'. generate_frame c time_point frame_width frame_height g = Some (img, g')
            \<and> filter is_connection_edge (img_ops img) = []"
    using edges_frame_finish[of c frame_width frame_height st']
    by (cases "frame_finish c frame_width frame_height st'") auto
  then show ?thesis using assms by (simp add: draw_connections_skipped)
qed


theorem no_edges_below_threshold_witness:
  "connection day1 \<le> 0.4 \<and>
   (\<exists>img g'. generate_frame day1 0 400 300 \<lparr>draws = (\<lambda>n. n), pos = 0\<rparr> = Some (img, g')
      \<and> filter is_connection_edge (img_ops img) = [])"
  using no_edges_below_threshold[of day1 _ _ 0 400 300 "\<lparr>draws = (\<lambda>n. n), pos = 0\<rparr>"]
  by (simp add: day1_def)

text \<open>Above the threshold edges are drawn: the day-6 record with all raw draws zero.\<close>

lemma random_zero:
  "random_random \<lparr>draws = (\<lambda>n. 0), pos = k\<rparr> = (0, \<lparr>draws = (\<lambda>n. 0), pos = Suc k\<rparr>)"
  by (simp add: random_random_def)

lemma centers_example:
  "make_cluster_centers (nat (num_clusters day6)) 400 300 [] \<lparr>draws = (\<lambda>n. 0), pos = 0\<rparr> =
     ([(100, 100), (100, 100)], \<lparr>draws = (\<lambda>n. 0), pos = 4\<rparr>)"
proof -
  have "nat (num_clusters day6) = Suc (Suc 0)"
    by (simp add: num_clusters_def py_int_def day6_def)
  then show ?thesis by (simp add: random_zero)
qed

lemma pairs_2: "cluster_pairs (Suc (Suc 0)) = [(0, Suc 0)]"
  by (simp add: cluster_pairs_def upt_rec)

lemma edge_drawn_example:
  "connection_edges (snd (frame_setup day6 400 300 \<lparr>draws = (\<lambda>n. 0), pos = 0\<rparr>)) =
     [Line (100, 100) (100, 100) (255, 51, 51, 120) 2]"
proof -
  have c: "connection day6 = 0.9" "color_base day6 = (255, 51, 51)"
    by (simp_all add: day6_def)
  show ?thesis
    by (simp add: frame_setup_def centers_example draw_connections_def pairs_2 connect_pair_def
      random_zero draw_def with_alpha_def connection_edges_def c)
qed

subsection \<open>The loop distributing the cells\<close>




text \<open>
  Claim C10. For every record with \<open>cell_count \<ge> 0\<close> and every sequence of random draws
  the loop of \<open>generate_frame\<close> terminates: one pass of its body adds the batch size
  \<open>min 5 remaining\<close> to \<open>cells_drawn\<close> (at least 1 while the loop condition holds), the
  loop returns with \<open>cells_drawn\<close> equal to the reduced cell count, and \<open>generate_frame\<close>
  returns a frame.
\<close>

theorem cell_loop_terminates:
  assumes "0 \<le> cell_count c"
  shows "cells_drawn (cluster_batch c pulse (fst (frame_setup c frame_width frame_height g))
                        (reduced_cell_count c) s) =
           cells_drawn s + max 0 (min 5 (reduced_cell_count c - cells_drawn s)) \<and>
         (\<exists>st'. distribute_cells c (beat_pulse c time_point)
                   (fst (frame_setup c frame_width frame_height g)) (reduced_cell_count c)
                   (snd (frame_setup c frame_width frame_height g)) = Some st'
               \<and> cells_drawn st' = reduced_cell_count c
               \<and> generate_frame c time_point frame_width frame_height g =
                   Some (frame_finish c frame_width frame_height st'))"
proof -
  have "0 \<le> py_int (cell_count c * 0.8)" using assms by (simp add: py_int_def)
  then have nonneg: "0 \<le> reduced_cell_count c" by (simp add: reduced_cell_count_def)
  then show ?thesis
    using generate_frame_returns[of c time_point frame_width frame_height g]
    by (auto simp: cells_drawn_cluster_batch)
qed

theorem cell_loop_terminates_witness:
  "0 \<le> cell_count day7 \<and>
   (\<exists>st'. distribute_cells day7 (beat_pulse day7 0)
            (fst (frame_setup day7 400 300 \<lparr>draws = (\<lambda>n. n), pos = 0\<rparr>)) (reduced_cell_count day7)
            (snd (frame_setup day7 400 300 \<lparr>draws = (\<lambda>n. n), pos = 0\<rparr>)) = Some st'
       \<and> cells_drawn st' = 15)"
proof -
  have "reduced_cell_count day7 = 15" "0 \<le> cell_count day7"
    by (simp_all add: day7_def reduced_cell_count_def py_int_def)
  then show ?thesis
    using cell_loop_terminates[of day7 _ 400 300 "\<lparr>draws = (\<lambda>n. n), pos = 0\<rparr>" _ 0]
    by auto
qed



section \<open>Properties of the animation assembly\<close>

lemma interpolate_succeeds:
  assumes "1 \<le> d" and "d \<le> 8"
  shows "\<exists>r. interpolate_characteristics d = Inr r"
proof (cases "d < 8")
  case True
  from interpolate_below_8[OF assms(1) True] show ?thesis by blast
next
  case False
  then show ?thesis using interpolate_at_8[of d] assms by simp
qed

lemma render_keyframes_all:
  assumes "\<forall>d \<in> set ds. 1 \<le> d \<and> d \<le> 8"
  shows "\<exists>fs' g'. render_keyframes ds fs g = Some (Inr (fs', g')) \<and>
           length fs' = length fs + length ds"
  using assms
proof (induction ds arbitrary: fs g)
  case Nil
  then show ?case by simp
next
  case (Cons d ds)
  then obtain r where r: "interpolate_characteristics d = Inr r"
    using interpolate_succeeds[of d] by auto
  obtain st' where "generate_frame r ((d - 1) * (60 / 7)) 400 300 g =
      Some (frame_finish r 400 300 st')"
    using generate_frame_returns[of r "(d - 1) * (60 / 7)" 400 300 g] by blast
  then obtain img g1 where fr: "generate_frame r ((d - 1) * (60 / 7)) 400 300 g = Some (img, g1)"
    by (cases "frame_finish r 400 300 st'") simp
  obtain fs' g' where "render_keyframes ds (fs @ [img]) g1 = Some (Inr (fs', g'))"
    "length fs' = length (fs @ [img]) + length ds"
    using Cons.IH[of "fs @ [img]" g1] Cons.prems by auto
  then show ?case using r fr by simp
qed

lemma total_keyframes_floor:
  "total_keyframes a b = (if b - a \<le> 2 then 12 else \<lfloor>16 * (b - a) / 7\<rfloor>)"
  by (simp add: total_keyframes_def py_int_def)

lemma total_keyframes_ge_4: "4 \<le> total_keyframes a b"
proof (cases "b - a \<le> 2")
  case True
  then show ?thesis by (simp add: total_keyframes_def)
next
  case False
  then have "4 \<le> 16 * (b - a) / 7" by simp
  then have "4 \<le> \<lfloor>16 * (b - a) / 7\<rfloor>" by (simp add: le_floor_iff)
  then show ?thesis using False by (simp add: total_keyframes_floor)
qed

lemma linspace_points:
  assumes "2 \<le> n"
  shows "\<exists>ps. linspace a b n = Inr ps \<and> length ps = nat n \<and> (\<forall>p \<in> set ps. between a b p)"
proof -
  have ps: "linspace a b n = Inr (map (\<lambda>i. a + real i * ((b - a) / of_int (n - 1))) [0..<nat n])"
    using assms by (simp add: linspace_def)
  have "between a b (a + real i * ((b - a) / of_int (n - 1)))" if "i < nat n" for i
  proof -
    have pos: "(0::real) < of_int (n - 1)" using assms by simp
    have "real i \<le> of_int (n - 1)" using that assms by linarith
    then have t: "0 \<le> real i / of_int (n - 1)" "real i / of_int (n - 1) \<le> 1"
      using pos by simp_all
    have "a + real i * ((b - a) / of_int (n - 1)) = interp_value a b (real i / of_int (n - 1))"
      by (simp add: interp_value_def)
    then show ?thesis using interp_value_between[OF t, of a b] by simp
  qed
  then show ?thesis using ps by auto
qed

lemma between_1_8:
  fixes p :: real
  assumes "between a b p" "1 \<le> a" "a \<le> 8" "1 \<le> b" "b \<le> 8"
  shows "1 \<le> p \<and> p \<le> 8"
  using assms by (auto simp: between_def min_def max_def split: if_splits)

lemma generate_animation_frames:
  assumes "1 \<le> a" "a \<le> 8" "1 \<le> b" "b \<le> 8"
  shows "\<exists>anim g'. generate_animation (a, b) sp g = Some (Inr (anim, g')) \<and>
           int (length (frames anim)) = total_keyframes a b \<and>
           duration anim = duration_map sp \<and> loop anim = 0"
proof -
  have n: "4 \<le> total_keyframes a b" by (rule total_keyframes_ge_4)
  then obtain ps where ps: "linspace a b (total_keyframes a b) = Inr ps"
    "length ps = nat (total_keyframes a b)" "\<forall>p \<in> set ps. between a b p"
    using linspace_points[of "total_keyframes a b" a b] by auto
  have "\<forall>d \<in> set ps. 1 \<le> d \<and> d \<le> 8"
    using ps(3) between_1_8[OF _ assms] by blast
  then obtain fs g' where fs: "render_keyframes ps [] g = Some (Inr (fs, g'))"
    "length fs = length ps"
    using render_keyframes_all[of ps "[]" g] by auto
  have "fs \<noteq> []" using fs(2) ps(2) n by auto
  then show ?thesis using ps fs n by (simp add: generate_animation_def)
qed

text \<open>
  Claim C6 says that a range wider than 2 days gets \<open>round (16 * (max - min) / 7)\<close>
  keyframes. The code truncates: the range \<open>(3, 6)\<close> of the day selector gets
  \<open>int (48 / 7) = 6\<close> keyframes, not 7.
\<close>

theorem keyframes_rounding_counterexample:
  "total_keyframes 3 6 \<noteq> round (16 * (6 - 3) / 7 :: real)"
  by (simp add: total_keyframes_def py_int_def round_def)

text \<open>
  Claim C6, amended. For every day range and every speed setting the assembler samples
  exactly 12 day positions if \<open>max - min \<le> 2\<close>, and exactly \<open>int (16 * (max - min) / 7)\<close>
  otherwise (truncated, here the floor); for a range inside \<open>[1, 8]\<close> it renders exactly
  that many frames. The range \<open>(1, 8)\<close> gets 16 keyframes, the range \<open>(1, 3)\<close> gets 12.
\<close>

theorem keyframe_count:
  "(\<exists>day_positions. linspace min_day max_day (total_keyframes min_day max_day) = Inr day_positions
      \<and> int (length day_positions) =
           (if max_day - min_day \<le> 2 then 12 else \<lfloor>16 * (max_day - min_day) / 7\<rfloor>)) \<and>
   (1 \<le> min_day \<and> min_day \<le> 8 \<and> 1 \<le> max_day \<and> max_day \<le> 8 \<longrightarrow>
      (\<exists>anim g'. generate_animation (min_day, max_day) animation_speed g = Some (Inr (anim, g'))
         \<and> int (length (frames anim)) =
             (if max_day - min_day \<le> 2 then 12 else \<lfloor>16 * (max_day - min_day) / 7\<rfloor>))) \<and>
   total_keyframes 1 8 = 16 \<and> total_keyframes 1 3 = 12"
proof -
  have n: "4 \<le> total_keyframes min_day max_day" by (rule total_keyframes_ge_4)
  have "\<exists>day_positions. linspace min_day max_day (total_keyframes min_day max_day) = Inr day_positions
      \<and> int (length day_positions) = total_keyframes min_day max_day"
    using linspace_points[of "total_keyframes min_day max_day" min_day max_day] n by auto
  moreover have "\<exists>anim g'. generate_animation (min_day, max_day) animation_speed g = Some (Inr (anim, g'))
         \<and> int (length (frames anim)) = total_keyframes min_day max_day"
    if "1 \<le> min_day \<and> min_day \<le> 8 \<and> 1 \<le> max_day \<and> max_day \<le> 8"
    using generate_animation_frames[of min_day max_day animation_speed g] that by blast
  moreover have "total_keyframes 1 8 = 16" "total_keyframes 1 3 = 12"
    by (simp_all add: total_keyframes_def py_int_def)
  ultimately show ?thesis
    unfolding total_keyframes_floor[of min_day max_day, symmetric] by blast
qed

theorem keyframe_count_witness:
  "(1::real) \<le> 3 \<and> (3::real) \<le> 8 \<and> (1::real) \<le> 6 \<and> (6::real) \<le> 8 \<and>
   (\<exists>anim g'. generate_animation (3, 6) Medium \<lparr>draws = (\<lambda>n. n), pos = 0\<rparr> = Some (Inr (anim, g'))
      \<and> length (frames anim) = 6)"
  using keyframe_count[of 3 6 Medium "\<lparr>draws = (\<lambda>n. n), pos = 0\<rparr>"]
  by simp

end
